theory Spec2Isabelle
  imports Main
begin

section \<open>Python values used by instagram\_date\_fixer.py\<close>

text \<open>
  Exceptions are values. Only the classes that the program's own \<open>except\<close> clauses
  tell apart are distinguished; all of them are subclasses of \<open>Exception\<close>.
\<close>

datatype exn = ValueError | IndexError | KeyError | OSError | OtherError

text \<open>
  A Python \<open>str\<close> is modelled as a \<open>string\<close>; a character is read as the code point
  below 256 that it stands for. On these code points \<open>\d\<close> is the ASCII digits,
  \<open>\s\<close> and \<open>str.strip\<close> agree on the whitespace set below, and ignoring case is
  ASCII case folding.
\<close>

definition is_digit :: "char \<Rightarrow> bool" where
  "is_digit c \<longleftrightarrow> 48 \<le> (of_char c :: nat) \<and> (of_char c :: nat) \<le> 57"

definition is_space :: "char \<Rightarrow> bool" where
  "is_space c \<longleftrightarrow> (of_char c :: nat) \<in> {9, 10, 11, 12, 13, 28, 29, 30, 31, 32, 133, 160}"

definition lower :: "char \<Rightarrow> char" where
  "lower c = (if 65 \<le> (of_char c :: nat) \<and> (of_char c :: nat) \<le> 90
              then char_of ((of_char c :: nat) + 32) else c)"

definition digit_char :: "nat \<Rightarrow> char" where
  "digit_char k = char_of (48 + k)"

definition digit_val :: "char \<Rightarrow> nat" where
  "digit_val c = (of_char c :: nat) - 48"

text \<open>
  \<open>int(text)\<close> on a captured group: optional surrounding whitespace is stripped, the
  rest are decimal digits (the patterns below capture nothing else).
\<close>

definition py_int :: "string \<Rightarrow> nat" where
  "py_int t = foldl (\<lambda>acc c. 10 * acc + digit_val c) 0 (dropWhile is_space t)"

function digits :: "nat \<Rightarrow> string" where
  "digits n = (if n < 10 then [digit_char n] else digits (n div 10) @ [digit_char (n mod 10)])"
  by pat_completeness auto
termination
  by (relation "measure (\<lambda>n. n)") auto

declare digits.simps [simp del]

definition zfill :: "nat \<Rightarrow> string \<Rightarrow> string" where
  "zfill w s = replicate (w - length s) (CHR ''0'') @ s"

section \<open>datetime\<close>

record datetime =
  year :: nat
  month :: nat
  day :: nat
  hour :: nat
  minute :: nat
  second :: nat

definition is_leap :: "nat \<Rightarrow> bool" where
  "is_leap y \<longleftrightarrow> y mod 4 = 0 \<and> (y mod 100 \<noteq> 0 \<or> y mod 400 = 0)"

definition days_in_month :: "nat \<Rightarrow> nat \<Rightarrow> nat" where
  "days_in_month y m =
     (if m = 2 then (if is_leap y then 29 else 28)
      else if m \<in> {4, 6, 9, 11} then 30 else 31)"

definition valid_datetime :: "datetime \<Rightarrow> bool" where
  "valid_datetime dt \<longleftrightarrow>
     1 \<le> year dt \<and> year dt \<le> 9999 \<and> 1 \<le> month dt \<and> month dt \<le> 12 \<and>
     1 \<le> day dt \<and> day dt \<le> days_in_month (year dt) (month dt) \<and>
     hour dt \<le> 23 \<and> minute dt \<le> 59 \<and> second dt \<le> 59"

text \<open>The constructor \<open>datetime(y, m, d, H, M, S)\<close>: out-of-range fields raise ValueError.\<close>

definition datetime_new :: "nat \<Rightarrow> nat \<Rightarrow> nat \<Rightarrow> nat \<Rightarrow> nat \<Rightarrow> nat \<Rightarrow> exn + datetime" where
  "datetime_new y m d H M S =
     (let dt = \<lparr>year = y, month = m, day = d, hour = H, minute = M, second = S\<rparr>
      in if valid_datetime dt then Inr dt else Inl ValueError)"

section \<open>datetime.strptime\<close>

text \<open>
  \<open>datetime.strptime\<close> compiles the format into a regular expression, matches it at
  the start of the input with \<open>re.IGNORECASE\<close>, raises ValueError when there is no
  match or when input remains after the match, and builds the datetime from the
  captured groups. The expressions are those of the standard library's \<open>TimeRE\<close> for
  the C/English locale.
\<close>

datatype rx =
    Eps
  | Lit char
  | AnyDigit
  | Range char char
  | Spaces
  | Cat rx rx
  | Alt rx rx
  | Group string rx

type_synonym caps = "(string \<times> string) list"

text \<open>\<open>\s+\<close> is greedy: the longest run first, then shorter ones on backtracking.\<close>

primrec ws_plus :: "string \<Rightarrow> (string \<Rightarrow> 'a option) \<Rightarrow> 'a option" where
  "ws_plus [] k = None"
| "ws_plus (x # xs) k =
     (if is_space x then (case ws_plus xs k of Some r \<Rightarrow> Some r | None \<Rightarrow> k xs) else None)"

text \<open>
  Backtracking matcher in continuation style: \<open>rmatch r s c k\<close> is the first success, in
  the priority order of the expression, of matching \<open>r\<close> at the start of \<open>s\<close> and then
  running \<open>k\<close> on the rest.
\<close>

primrec rmatch :: "rx \<Rightarrow> string \<Rightarrow> caps \<Rightarrow> (string \<Rightarrow> caps \<Rightarrow> 'a option) \<Rightarrow> 'a option" where
  "rmatch Eps s c k = k s c"
| "rmatch (Lit a) s c k =
     (case s of [] \<Rightarrow> None | x # xs \<Rightarrow> if lower x = lower a then k xs c else None)"
| "rmatch AnyDigit s c k =
     (case s of [] \<Rightarrow> None | x # xs \<Rightarrow> if is_digit x then k xs c else None)"
| "rmatch (Range a b) s c k =
     (case s of [] \<Rightarrow> None
      | x # xs \<Rightarrow> if (of_char a :: nat) \<le> of_char x \<and> (of_char x :: nat) \<le> of_char b
                  then k xs c else None)"
| "rmatch Spaces s c k = ws_plus s (\<lambda>s'. k s' c)"
| "rmatch (Cat r1 r2) s c k = rmatch r1 s c (\<lambda>s' c'. rmatch r2 s' c' k)"
| "rmatch (Alt r1 r2) s c k =
     (case rmatch r1 s c k of Some x \<Rightarrow> Some x | None \<Rightarrow> rmatch r2 s c k)"
| "rmatch (Group n r) s c k =
     rmatch r s c (\<lambda>s' c'. k s' ((n, take (length s - length s') s) # c'))"

definition lits :: "string \<Rightarrow> rx" where
  "lits s = foldr (\<lambda>c r. Cat (Lit c) r) s Eps"

fun alts :: "rx list \<Rightarrow> rx" where
  "alts [] = Eps"
| "alts [r] = r"
| "alts (r # rs) = Alt r (alts rs)"

text \<open>The expression of each directive, as \<open>TimeRE\<close> has it.\<close>

definition directive :: "char \<Rightarrow> rx" where
  "directive d =
    (if d = CHR ''Y'' then
       Group ''Y'' (Cat AnyDigit (Cat AnyDigit (Cat AnyDigit AnyDigit)))
     else if d = CHR ''m'' then
       Group ''m'' (alts [Cat (Lit (CHR ''1'')) (Range (CHR ''0'') (CHR ''2'')),
                          Cat (Lit (CHR ''0'')) (Range (CHR ''1'') (CHR ''9'')),
                          Range (CHR ''1'') (CHR ''9'')])
     else if d = CHR ''d'' then
       Group ''d'' (alts [Cat (Lit (CHR ''3'')) (Range (CHR ''0'') (CHR ''1'')),
                          Cat (Range (CHR ''1'') (CHR ''2'')) AnyDigit,
                          Cat (Lit (CHR ''0'')) (Range (CHR ''1'') (CHR ''9'')),
                          Range (CHR ''1'') (CHR ''9''),
                          Cat (Lit (CHR '' '')) (Range (CHR ''1'') (CHR ''9''))])
     else if d = CHR ''H'' then
       Group ''H'' (alts [Cat (Lit (CHR ''2'')) (Range (CHR ''0'') (CHR ''3'')),
                          Cat (Range (CHR ''0'') (CHR ''1'')) AnyDigit,
                          AnyDigit])
     else if d = CHR ''I'' then
       Group ''I'' (alts [Cat (Lit (CHR ''1'')) (Range (CHR ''0'') (CHR ''2'')),
                          Cat (Lit (CHR ''0'')) (Range (CHR ''1'') (CHR ''9'')),
                          Range (CHR ''1'') (CHR ''9'')])
     else if d = CHR ''M'' then
       Group ''M'' (alts [Cat (Range (CHR ''0'') (CHR ''5'')) AnyDigit, AnyDigit])
     else if d = CHR ''S'' then
       Group ''S'' (alts [Cat (Lit (CHR ''6'')) (Range (CHR ''0'') (CHR ''1'')),
                          Cat (Range (CHR ''0'') (CHR ''5'')) AnyDigit,
                          AnyDigit])
     else if d = CHR ''b'' then
       Group ''b'' (alts (map lits [''jan'', ''feb'', ''mar'', ''apr'', ''may'', ''jun'',
                                    ''jul'', ''aug'', ''sep'', ''oct'', ''nov'', ''dec'']))
     else if d = CHR ''p'' then
       Group ''p'' (alts (map lits [''am'', ''pm'']))
     else Lit d)"

text \<open>
  \<open>TimeRE.pattern\<close>: a run of whitespace in the format becomes \<open>\s+\<close>, a directive its
  expression, any other character itself.
\<close>

function pattern :: "string \<Rightarrow> rx" where
  "pattern [] = Eps"
| "pattern (c # cs) =
     (if c = CHR ''%'' then
        (case cs of [] \<Rightarrow> Lit c | d # ds \<Rightarrow> Cat (directive d) (pattern ds))
      else if is_space c then Cat Spaces (pattern (dropWhile is_space cs))
      else Cat (Lit c) (pattern cs))"
  by pat_completeness auto
termination
  by (relation "measure length") (auto simp: less_Suc_eq_le length_dropWhile_le)

definition month_abbr :: "string list" where
  "month_abbr = [''jan'', ''feb'', ''mar'', ''apr'', ''may'', ''jun'',
                 ''jul'', ''aug'', ''sep'', ''oct'', ''nov'', ''dec'']"

primrec index_of :: "'a \<Rightarrow> 'a list \<Rightarrow> nat option" where
  "index_of a [] = None"
| "index_of a (x # xs) =
     (if x = a then Some 0 else (case index_of a xs of None \<Rightarrow> None | Some i \<Rightarrow> Some (Suc i)))"

text \<open>
  The conversion of the captured groups: a missing group keeps its default
  (1900-01-01 00:00:00); a 12-hour value is shifted by the am/pm group.
\<close>

definition group_nat :: "caps \<Rightarrow> string \<Rightarrow> nat \<Rightarrow> nat" where
  "group_nat found n dflt = (case map_of found n of None \<Rightarrow> dflt | Some t \<Rightarrow> py_int t)"

definition found_month :: "caps \<Rightarrow> nat" where
  "found_month found =
     (case map_of found ''b'' of
        Some t \<Rightarrow> (case index_of (map lower t) month_abbr of Some i \<Rightarrow> Suc i | None \<Rightarrow> 1)
      | None \<Rightarrow> group_nat found ''m'' 1)"

definition found_hour :: "caps \<Rightarrow> nat" where
  "found_hour found =
     (case map_of found ''I'' of
        Some t \<Rightarrow>
          (let h = py_int t;
               ampm = (case map_of found ''p'' of None \<Rightarrow> [] | Some a \<Rightarrow> map lower a)
           in if ampm = [] \<or> ampm = ''am'' then (if h = 12 then 0 else h)
              else (if h \<noteq> 12 then h + 12 else h))
      | None \<Rightarrow> group_nat found ''H'' 0)"

definition strptime :: "string \<Rightarrow> string \<Rightarrow> exn + datetime" where
  "strptime data_string format =
     (case rmatch (pattern format) data_string [] (\<lambda>s c. Some (s, c)) of
        None \<Rightarrow> Inl ValueError
      | Some (rest, found) \<Rightarrow>
          if rest \<noteq> [] then Inl ValueError
          else datetime_new (group_nat found ''Y'' 1900) (found_month found)
                 (group_nat found ''d'' 1) (found_hour found)
                 (group_nat found ''M'' 0) (group_nat found ''S'' 0))"

section \<open>datetime.strftime\<close>

text \<open>
  The numeric directives print the field in decimal, zero-filled to the documented
  width (four digits for \<open>%Y\<close>, two for the others).
\<close>

definition strftime_directive :: "datetime \<Rightarrow> char \<Rightarrow> string" where
  "strftime_directive dt d =
    (if d = CHR ''Y'' then zfill 4 (digits (year dt))
     else if d = CHR ''m'' then zfill 2 (digits (month dt))
     else if d = CHR ''d'' then zfill 2 (digits (day dt))
     else if d = CHR ''H'' then zfill 2 (digits (hour dt))
     else if d = CHR ''M'' then zfill 2 (digits (minute dt))
     else if d = CHR ''S'' then zfill 2 (digits (second dt))
     else [CHR ''%'', d])"

fun strftime :: "datetime \<Rightarrow> string \<Rightarrow> string" where
  "strftime dt (c # d # cs) =
     (if c = CHR ''%'' then strftime_directive dt d @ strftime dt cs
      else c # strftime dt (d # cs))"
| "strftime dt cs = cs"

section \<open>parse\_instagram\_date\<close>

text \<open>
  Each \<open>try\<close> returns the parsed value; \<open>except ValueError: pass\<close> goes on to the
  next format, any other exception would leave the function.
\<close>

definition parse_instagram_date :: "string \<Rightarrow> exn + datetime option" where
  "parse_instagram_date date_str =
     (case strptime date_str ''%Y:%m:%d %H:%M:%S'' of
        Inr dt \<Rightarrow> Inr (Some dt)
      | Inl e \<Rightarrow>
          if e \<noteq> ValueError then Inl e
          else (case strptime date_str ''%b %d, %Y %I:%M %p'' of
                  Inr dt \<Rightarrow> Inr (Some dt)
                | Inl e' \<Rightarrow> if e' \<noteq> ValueError then Inl e' else Inr None))"



section \<open>The parsed document\<close>

text \<open>
  \<open>BeautifulSoup(html_content, 'html.parser')\<close> yields a tree of tags and strings; the
  parser itself is a parameter of the functions below. A tag carries its name, the
  tokens of its \<open>class\<close> attribute (none when the attribute is absent), its other
  attributes and its children. Comments and the like take no part in \<open>find\<close>,
  \<open>find_all\<close> or \<open>get_text\<close> and are left out.
\<close>

datatype node =
    Text string
  | Element (tag: string) (classes: "string list") (attrs: "(string \<times> string) list")
      (children: "node list")

text \<open>All descendants, in document order.\<close>

fun descendants :: "node \<Rightarrow> node list" where
  "descendants (Text s) = []"
| "descendants (Element t c a ch) = concat (map (\<lambda>n. n # descendants n) ch)"

fun join_space :: "string list \<Rightarrow> string" where
  "join_space [] = []"
| "join_space [x] = x"
| "join_space (x # xs) = x @ CHR '' '' # join_space xs"

text \<open>
  Matching \<open>class_=search\<close>: some token of the class attribute equals the search string,
  or the tokens joined by single blanks do.
\<close>

definition class_matches :: "string \<Rightarrow> string list \<Rightarrow> bool" where
  "class_matches search toks \<longleftrightarrow> search \<in> set toks \<or> join_space toks = search"

fun tag_matches :: "string \<Rightarrow> string option \<Rightarrow> node \<Rightarrow> bool" where
  "tag_matches name cls (Text s) = False"
| "tag_matches name cls (Element t c a ch) =
     (t = name \<and> (case cls of None \<Rightarrow> True | Some search \<Rightarrow> class_matches search c))"

definition find_all :: "string \<Rightarrow> string option \<Rightarrow> node \<Rightarrow> node list" where
  "find_all name cls n = filter (tag_matches name cls) (descendants n)"

definition find_first :: "string \<Rightarrow> string option \<Rightarrow> node \<Rightarrow> node option" where
  "find_first name cls n = (case find_all name cls n of [] \<Rightarrow> None | x # xs \<Rightarrow> Some x)"

definition strip :: "string \<Rightarrow> string" where
  "strip s = rev (dropWhile is_space (rev (dropWhile is_space s)))"

fun node_string :: "node \<Rightarrow> string list" where
  "node_string (Text s) = [s]"
| "node_string (Element t c a ch) = []"

text \<open>\<open>get_text(strip=True)\<close>: every string below the tag, stripped, the empty ones dropped.\<close>

definition get_text :: "node \<Rightarrow> string" where
  "get_text n = concat (filter (\<lambda>s. s \<noteq> []) (map strip (concat (map node_string (descendants n)))))"

definition get_attr :: "node \<Rightarrow> string \<Rightarrow> string option" where
  "get_attr n key = (case n of Text s \<Rightarrow> None | Element t c a ch \<Rightarrow> map_of a key)"

section \<open>What the program prints\<close>

text \<open>Each \<open>print\<close> is recorded as an event carrying the values it formats.\<close>

datatype message =
    DebugFoundDisplayDate string
  | DebugParsedDisplayDate datetime
  | DebugFoundRows nat
  | DebugLabelValue string string
  | DebugParsedTableDate "datetime option"
  | WarningImageNotFound string
  | WarningNoRootPath
  | ErrorImageNotFound string
  | Updated string datetime
  | ErrorUpdating string exn

section \<open>find\_date\_in\_html\<close>

text \<open>
  The label block of the first cell of a row and the value block of the second, nested
  one block deeper (lines 58 to 64); they are used on rows of at least two cells.
\<close>

definition label_div_of :: "node list \<Rightarrow> node option" where
  "label_div_of cells = find_first ''div'' (Some ''_a6-q'') (cells ! 0)"

definition value_div_of :: "node list \<Rightarrow> node option" where
  "value_div_of cells =
     (case find_first ''div'' None (cells ! 1) of
        Some value_container \<Rightarrow> find_first ''div'' (Some ''_a6-q'') value_container
      | None \<Rightarrow> None)"

fun find_date_rows :: "bool \<Rightarrow> node list \<Rightarrow> exn + (datetime option \<times> message list)" where
  "find_date_rows debug [] = Inr (None, [])"
| "find_date_rows debug (row # rows) =
     (let cells = find_all ''td'' None row in
      if 2 \<le> length cells then
        (case label_div_of cells of
           None \<Rightarrow> find_date_rows debug rows
         | Some label_div \<Rightarrow>
             (let label = get_text label_div;
                  value_div = value_div_of cells;
                  out = (if debug then
                           [DebugLabelValue label
                              (case value_div of Some v \<Rightarrow> get_text v | None \<Rightarrow> ''NO VALUE'')]
                         else []);
                  value = (case value_div of Some v \<Rightarrow> get_text v | None \<Rightarrow> [])
              in if label = ''Date taken'' \<and> value_div \<noteq> None \<and> value \<noteq> [] then
                   (case parse_instagram_date value of
                      Inl e \<Rightarrow> Inl e
                    | Inr date \<Rightarrow>
                        Inr (date, out @ (if debug then [DebugParsedTableDate date] else [])))
                 else
                   (case find_date_rows debug rows of
                      Inl e \<Rightarrow> Inl e
                    | Inr (date, out') \<Rightarrow> Inr (date, out @ out'))))
      else find_date_rows debug rows)"

definition find_date_in_html ::
    "(string \<Rightarrow> node) \<Rightarrow> string \<Rightarrow> bool \<Rightarrow> exn + (datetime option \<times> message list)" where
  "find_date_in_html html_parser html_content debug =
     (let soup = html_parser html_content;
          fallback = (\<lambda>out.
            let rows = find_all ''tr'' None soup;
                out1 = out @ (if debug then [DebugFoundRows (length rows)] else [])
            in case find_date_rows debug rows of
                 Inl e \<Rightarrow> Inl e
               | Inr (date, out2) \<Rightarrow> Inr (date, out1 @ out2))
      in case find_first ''div'' (Some ''_3-94 _a6-o'') soup of
           None \<Rightarrow> fallback []
         | Some date_div \<Rightarrow>
             (let date_text = get_text date_div;
                  out = (if debug then [DebugFoundDisplayDate date_text] else [])
              in case parse_instagram_date date_text of
                   Inl e \<Rightarrow> Inl e
                 | Inr (Some date) \<Rightarrow>
                     Inr (Some date, out @ (if debug then [DebugParsedDisplayDate date] else []))
                 | Inr None \<Rightarrow> fallback out))"

section \<open>Paths\<close>

text \<open>
  \<open>pathlib\<close> on a POSIX system: a path is a root (empty, \<open>/\<close> or \<open>//\<close>) and its
  segments; empty segments and \<open>.\<close> are dropped when a string is parsed.
\<close>

datatype pure_path = PurePath (root: string) (segments: "string list")

fun split_slash :: "string \<Rightarrow> string list" where
  "split_slash [] = [[]]"
| "split_slash (c # cs) =
     (if c = CHR ''/'' then [] # split_slash cs
      else (case split_slash cs of [] \<Rightarrow> [[c]] | h # t \<Rightarrow> (c # h) # t))"

definition parse_path :: "string \<Rightarrow> pure_path" where
  "parse_path s =
     PurePath
       (if take 2 s = ''//'' \<and> take 3 s \<noteq> ''///'' then ''//''
        else if take 1 s = ''/'' then ''/'' else [])
       (filter (\<lambda>p. p \<noteq> [] \<and> p \<noteq> ''.'') (split_slash s))"

definition parts :: "pure_path \<Rightarrow> string list" where
  "parts p = (if root p = [] then segments p else root p # segments p)"

text \<open>\<open>p / s\<close>: an absolute right operand replaces the left one.\<close>

definition joinpath :: "pure_path \<Rightarrow> string \<Rightarrow> pure_path" where
  "joinpath p s =
     (let q = parse_path s
      in if root q \<noteq> [] then q else PurePath (root p) (segments p @ segments q))"

definition Path :: "string list \<Rightarrow> pure_path" where
  "Path args = foldl joinpath (PurePath [] []) args"

fun join_slash :: "string list \<Rightarrow> string" where
  "join_slash [] = []"
| "join_slash [x] = x"
| "join_slash (x # xs) = x @ CHR ''/'' # join_slash xs"

definition str_path :: "pure_path \<Rightarrow> string" where
  "str_path p = (if root p = [] \<and> segments p = [] then ''.'' else root p @ join_slash (segments p))"

section \<open>The file system\<close>

record file_node =
  data :: string
  atime :: int
  mtime :: int

type_synonym filesystem = "string \<Rightarrow> file_node option"

definition path_exists :: "filesystem \<Rightarrow> string \<Rightarrow> bool" where
  "path_exists fs p \<longleftrightarrow> fs p \<noteq> None"

section \<open>find\_images\_in\_html\<close>

text \<open>Lines 95 to 99: the display date of a post.\<close>

definition display_date :: "node \<Rightarrow> exn + datetime option" where
  "display_date post =
     (case find_first ''div'' (Some ''_3-94 _a6-o'') post of
        None \<Rightarrow> Inr None
      | Some date_div \<Rightarrow> parse_instagram_date (get_text date_div))"

text \<open>
  Lines 104 to 120: the loop over the rows of the post, entered with \<open>date\<close> being None;
  the result is the value of \<open>date\<close> when the loop is left.
\<close>

fun table_date :: "node list \<Rightarrow> exn + datetime option" where
  "table_date [] = Inr None"
| "table_date (row # rows) =
     (let cells = find_all ''td'' None row in
      if 2 \<le> length cells then
        (case (label_div_of cells, value_div_of cells) of
           (Some label_div, Some value_div) \<Rightarrow>
             if get_text label_div = ''Date taken'' then
               (let value = get_text value_div
                in if value \<noteq> [] then parse_instagram_date value else table_date rows)
             else table_date rows
         | _ \<Rightarrow> table_date rows)
      else table_date rows)"

definition post_date :: "node \<Rightarrow> exn + datetime option" where
  "post_date post =
     (case display_date post of
        Inl e \<Rightarrow> Inl e
      | Inr (Some date) \<Rightarrow> Inr (Some date)
      | Inr None \<Rightarrow> table_date (find_all ''tr'' None post))"

text \<open>
  Lines 128 to 140: the root is what precedes \<open>your_instagram_activity\<close> among the parts
  of the document's path; \<open>index\<close> raising ValueError is the \<open>except\<close> branch.
\<close>

definition resolve_image ::
    "filesystem \<Rightarrow> string \<Rightarrow> string \<Rightarrow> bool \<Rightarrow> string option \<times> message list" where
  "resolve_image fs html_file_path img_path debug =
     (let path_parts = parts (parse_path html_file_path)
      in case index_of ''your_instagram_activity'' path_parts of
           None \<Rightarrow> (None, if debug then [WarningNoRootPath] else [])
         | Some activity_idx \<Rightarrow>
             (let root_path = Path (take activity_idx path_parts);
                  full_path = joinpath root_path img_path
              in if path_exists fs (str_path full_path) then (Some (str_path full_path), [])
                 else (None, if debug then [WarningImageNotFound (str_path full_path)] else [])))"

text \<open>The body of the loop over the posts: what one post appends and prints.\<close>

definition post_images ::
    "filesystem \<Rightarrow> string \<Rightarrow> bool \<Rightarrow> node \<Rightarrow> exn + ((string \<times> datetime) list \<times> message list)" where
  "post_images fs html_file_path debug post =
     (case post_date post of
        Inl e \<Rightarrow> Inl e
      | Inr date \<Rightarrow>
          (case find_first ''img'' (Some ''_a6_o _3-96'') post of
             None \<Rightarrow> Inr ([], [])
           | Some img_tag \<Rightarrow>
               (case (get_attr img_tag ''src'', date) of
                  (Some img_path, Some d) \<Rightarrow>
                    if img_path = [] then Inr ([], [])
                    else (case resolve_image fs html_file_path img_path debug of
                            (Some full_path, out) \<Rightarrow> Inr ([(full_path, d)], out)
                          | (None, out) \<Rightarrow> Inr ([], out))
                | _ \<Rightarrow> Inr ([], []))))"

fun posts_loop ::
    "filesystem \<Rightarrow> string \<Rightarrow> bool \<Rightarrow> node list \<Rightarrow> exn + ((string \<times> datetime) list \<times> message list)" where
  "posts_loop fs html_file_path debug [] = Inr ([], [])"
| "posts_loop fs html_file_path debug (post # posts) =
     (case post_images fs html_file_path debug post of
        Inl e \<Rightarrow> Inl e
      | Inr (recs, out) \<Rightarrow>
          (case posts_loop fs html_file_path debug posts of
             Inl e \<Rightarrow> Inl e
           | Inr (recs', out') \<Rightarrow> Inr (recs @ recs', out @ out')))"

definition find_images_in_html ::
    "(string \<Rightarrow> node) \<Rightarrow> filesystem \<Rightarrow> string \<Rightarrow> string \<Rightarrow> bool \<Rightarrow>
       exn + ((string \<times> datetime) list \<times> message list)" where
  "find_images_in_html html_parser fs html_content html_file_path debug =
     (let soup = html_parser html_content;
          posts = find_all ''div'' (Some ''pam _3-95 _2ph- _a6-g uiBoxWhite noborder'') soup
      in posts_loop fs html_file_path debug posts)"

section \<open>update\_image\_metadata\<close>

text \<open>
  The EXIF block as \<open>piexif\<close> has it: a dictionary of groups (\<open>0th\<close>, \<open>Exif\<close>, \<open>GPS\<close>,
  \<open>1st\<close>), each a dictionary from tag numbers to values. Assigning into a missing group
  raises KeyError.
\<close>

type_synonym exif_dict = "string \<Rightarrow> (nat \<Rightarrow> string option) option"

definition empty_exif :: exif_dict where
  "empty_exif = [''0th'' \<mapsto> Map.empty, ''Exif'' \<mapsto> Map.empty, ''GPS'' \<mapsto> Map.empty,
                 ''1st'' \<mapsto> Map.empty]"

definition exif_put :: "exif_dict \<Rightarrow> string \<Rightarrow> nat \<Rightarrow> string \<Rightarrow> exn + exif_dict" where
  "exif_put d grp tg v =
     (case d grp of None \<Rightarrow> Inl KeyError | Some g \<Rightarrow> Inr (d(grp \<mapsto> g(tg \<mapsto> v))))"

text \<open>\<open>piexif.ImageIFD.DateTime\<close>, \<open>piexif.ExifIFD.DateTimeOriginal\<close> and \<open>DateTimeDigitized\<close>.\<close>

definition ImageIFD_DateTime :: nat where "ImageIFD_DateTime = 306"
definition ExifIFD_DateTimeOriginal :: nat where "ExifIFD_DateTimeOriginal = 36867"
definition ExifIFD_DateTimeDigitized :: nat where "ExifIFD_DateTimeDigitized = 36868"

text \<open>
  The libraries and the operating system are parameters: what \<open>Image.open\<close>,
  \<open>piexif.load\<close>, \<open>piexif.dump\<close>, \<open>Image.save\<close> and \<open>datetime.timestamp\<close> return or
  raise, and whether \<open>shutil.copy2\<close>, \<open>os.utime\<close> and \<open>os.remove\<close> raise. A failed
  \<open>copy2\<close> or \<open>save\<close> also says what it left at the path it was writing. Only the calls
  inside the \<open>try\<close> block can fail here; the move in the handler is the recovery itself
  and is taken to succeed.
\<close>

record 'img env =
  image_open :: "string \<Rightarrow> exn + 'img"
  piexif_load :: "string \<Rightarrow> exn + exif_dict"
  piexif_dump :: "exif_dict \<Rightarrow> exn + string"
  image_save :: "'img \<Rightarrow> string \<Rightarrow> (exn \<times> file_node option) + string"
  save_time :: int
  timestamp :: "datetime \<Rightarrow> exn + int"
  copy2_fault :: "(exn \<times> file_node option) option"
  utime_fault :: "exn option"
  remove_fault :: "exn option"

text \<open>Lines 156 to 173: open the image and build the new EXIF bytes.\<close>

definition prepare_exif :: "'img env \<Rightarrow> string \<Rightarrow> datetime \<Rightarrow> exn + ('img \<times> string)" where
  "prepare_exif env bytes date_taken =
     (case image_open env bytes of
        Inl e \<Rightarrow> Inl e
      | Inr img \<Rightarrow>
          (let exif_date = strftime date_taken ''%Y:%m:%d %H:%M:%S'';
               exif_dict = (case piexif_load env bytes of Inl e \<Rightarrow> empty_exif | Inr d \<Rightarrow> d)
           in case exif_put exif_dict ''0th'' ImageIFD_DateTime exif_date of
                Inl e \<Rightarrow> Inl e
              | Inr d1 \<Rightarrow>
                  (case exif_put d1 ''Exif'' ExifIFD_DateTimeOriginal exif_date of
                     Inl e \<Rightarrow> Inl e
                   | Inr d2 \<Rightarrow>
                       (case exif_put d2 ''Exif'' ExifIFD_DateTimeDigitized exif_date of
                          Inl e \<Rightarrow> Inl e
                        | Inr d3 \<Rightarrow>
                            (case piexif_dump env d3 of
                               Inl e \<Rightarrow> Inl e
                             | Inr exif_bytes \<Rightarrow> Inr (img, exif_bytes))))))"

text \<open>Lines 176 to 183: save, set the timestamps, remove the backup.\<close>

definition commit_update ::
    "'img env \<Rightarrow> string \<Rightarrow> string \<Rightarrow> 'img \<Rightarrow> string \<Rightarrow> datetime \<Rightarrow> filesystem \<Rightarrow>
       exn option \<times> filesystem" where
  "commit_update env image_path backup_path img exif_bytes date_taken fs =
     (case image_save env img exif_bytes of
        Inl (e, leftover) \<Rightarrow> (Some e, fs(image_path := leftover))
      | Inr bytes \<Rightarrow>
          (let fs2 = fs(image_path \<mapsto>
                        \<lparr>data = bytes, atime = save_time env, mtime = save_time env\<rparr>)
           in case timestamp env date_taken of
                Inl e \<Rightarrow> (Some e, fs2)
              | Inr ts \<Rightarrow>
                  (case utime_fault env of
                     Some e \<Rightarrow> (Some e, fs2)
                   | None \<Rightarrow>
                       (let fs3 = fs2(image_path \<mapsto> \<lparr>data = bytes, atime = ts, mtime = ts\<rparr>)
                        in case remove_fault env of
                             Some e \<Rightarrow> (Some e, fs3)
                           | None \<Rightarrow> (None, fs3(backup_path := None))))))"

text \<open>
  The \<open>try\<close> block, lines 151 to 186: the exception that leaves it, if any, and the file
  system at that point.
\<close>

definition try_update ::
    "'img env \<Rightarrow> string \<Rightarrow> datetime \<Rightarrow> filesystem \<Rightarrow> exn option \<times> filesystem" where
  "try_update env image_path date_taken fs =
     (let backup_path = image_path @ ''.backup''
      in case copy2_fault env of
           Some (e, leftover) \<Rightarrow> (Some e, fs(backup_path := leftover))
         | None \<Rightarrow>
             (case fs image_path of
                None \<Rightarrow> (Some OSError, fs)
              | Some f \<Rightarrow>
                  (let fs1 = fs(backup_path \<mapsto> f)
                   in case prepare_exif env (data f) date_taken of
                        Inl e \<Rightarrow> (Some e, fs1)
                      | Inr (img, exif_bytes) \<Rightarrow>
                          commit_update env image_path backup_path img exif_bytes date_taken fs1)))"

definition basename :: "string \<Rightarrow> string" where
  "basename p = last (split_slash p)"

text \<open>
  The whole function: the result, the file system afterwards and what was printed.
  The handler moves the backup over the image when the backup exists.
\<close>

definition update_image_metadata ::
    "'img env \<Rightarrow> string \<Rightarrow> datetime \<Rightarrow> filesystem \<Rightarrow> bool \<times> filesystem \<times> message list" where
  "update_image_metadata env image_path date_taken fs =
     (if \<not> path_exists fs image_path then (False, fs, [ErrorImageNotFound image_path])
      else
        (let backup_path = image_path @ ''.backup''
         in case try_update env image_path date_taken fs of
              (None, fs') \<Rightarrow> (True, fs', [Updated (basename image_path) date_taken])
            | (Some e, fs') \<Rightarrow>
                (False,
                 (if path_exists fs' backup_path
                  then fs'(image_path := fs' backup_path, backup_path := None) else fs'),
                 [ErrorUpdating image_path e])))"

section \<open>Notions used to state the properties\<close>

text \<open>
  The label of a row, when the row has two cells and a label block; and the text a row
  offers as the date: the row has two cells, a label block reading exactly
  \<open>Date taken\<close> and a value block with non-empty text.
\<close>

definition row_label :: "node \<Rightarrow> string option" where
  "row_label row =
     (let cells = find_all ''td'' None row
      in if 2 \<le> length cells then map_option get_text (label_div_of cells) else None)"

definition date_taken_value :: "node \<Rightarrow> string option" where
  "date_taken_value row =
     (let cells = find_all ''td'' None row
      in if 2 \<le> length cells then
           (case (label_div_of cells, value_div_of cells) of
              (Some label_div, Some value_div) \<Rightarrow>
                if get_text label_div = ''Date taken'' \<and> get_text value_div \<noteq> []
                then Some (get_text value_div) else None
            | _ \<Rightarrow> None)
         else None)"

text \<open>The records one post contributes, none if the body of the loop raised.\<close>

definition post_records :: "filesystem \<Rightarrow> string \<Rightarrow> bool \<Rightarrow> node \<Rightarrow> (string \<times> datetime) list" where
  "post_records fs html_file_path debug post =
     (case post_images fs html_file_path debug post of Inl e \<Rightarrow> [] | Inr (recs, out) \<Rightarrow> recs)"

section \<open>Example documents\<close>

text \<open>The markup of an export page, as the functions above expect it.\<close>

definition example_row :: "string \<Rightarrow> string \<Rightarrow> node" where
  "example_row label v =
     Element ''tr'' [] []
       [Element ''td'' [] [] [Element ''div'' [''_a6-q''] [] [Text label]],
        Element ''td'' [] [] [Element ''div'' [] [] [Element ''div'' [''_a6-q''] [] [Text v]]]]"

definition example_display :: "string \<Rightarrow> node" where
  "example_display date_text = Element ''div'' [''_3-94'', ''_a6-o''] [] [Text date_text]"

definition example_img :: "string \<Rightarrow> node" where
  "example_img src = Element ''img'' [''_a6_o'', ''_3-96''] [(''src'', src)] []"

definition example_post :: "node list \<Rightarrow> node" where
  "example_post body =
     Element ''div'' [''pam'', ''_3-95'', ''_2ph-'', ''_a6-g'', ''uiBoxWhite'', ''noborder''] [] body"

definition example_post_both :: node where
  "example_post_both =
     example_post [example_img ''media/posts/photo.jpg'',
                   example_display ''Jan 01, 2020 12:00 am'',
                   Element ''table'' [] [] [example_row ''Date taken'' ''2020:01:02 00:00:00'']]"

definition example_post_table :: node where
  "example_post_table =
     example_post [example_img ''media/posts/photo.jpg'',
                   Element ''table'' [] []
                     [example_row ''Caption'' ''2018:01:01 01:01:01'',
                      example_row ''Date taken'' ''2019:05:05 05:05:05'',
                      example_row ''Date taken'' ''2021:06:06 06:06:06'']]"

definition example_post_no_date :: node where
  "example_post_no_date =
     example_post [example_img ''media/posts/photo.jpg'',
                   Element ''table'' [] [] [example_row ''Caption'' ''2018:01:01 01:01:01'']]"

definition example_document :: node where
  "example_document =
     Element ''[document]'' [] []
       [Element ''html'' [] []
          [Element ''body'' [] [] [example_post_both, example_post_table, example_post_no_date]]]"

definition example_html_path :: string where
  "example_html_path = ''/home/u/export/your_instagram_activity/content/posts_1.html''"

definition example_file :: file_node where
  "example_file = \<lparr>data = ''original bytes'', atime = 100, mtime = 100\<rparr>"

definition example_fs :: filesystem where
  "example_fs = [''/home/u/export/media/posts/photo.jpg'' \<mapsto> example_file]"

text \<open>
  Libraries that succeed, with an image standing for its bytes, and the three ways
  of failing used below.
\<close>

definition example_env :: "string env" where
  "example_env =
     \<lparr>image_open = (\<lambda>bytes. Inr bytes),
      piexif_load = (\<lambda>bytes. Inr empty_exif),
      piexif_dump = (\<lambda>d. Inr ''exif''),
      image_save = (\<lambda>img exif_bytes. Inr (img @ exif_bytes)),
      save_time = 200,
      timestamp = (\<lambda>d. Inr 300),
      copy2_fault = None,
      utime_fault = None,
      remove_fault = None\<rparr>"


definition example_env_save_fails :: "string env" where
  "example_env_save_fails =
     example_env\<lparr>image_save :=
       (\<lambda>img exif_bytes. Inl (OSError, Some \<lparr>data = ''orig'', atime = 200, mtime = 200\<rparr>))\<rparr>"

definition example_env_remove_fails :: "string env" where
  "example_env_remove_fails = example_env\<lparr>remove_fault := Some OSError\<rparr>"

definition example_date :: datetime where
  "example_date = \<lparr>year = 2021, month = 3, day = 15, hour = 10, minute = 30, second = 0\<rparr>"

definition example_image_path :: string where
  "example_image_path = ''/home/u/export/media/posts/photo.jpg''"

section \<open>Properties of the date parser\<close>

lemma of_char_digit_char [simp]: "k < 10 \<Longrightarrow> (of_char (digit_char k) :: nat) = 48 + k"
  by (simp add: digit_char_def)

lemma is_digit_digit_char [simp]: "k < 10 \<Longrightarrow> is_digit (digit_char k)"
  by (simp add: is_digit_def)

lemma lower_digit_char [simp]: "k < 10 \<Longrightarrow> lower (digit_char k) = digit_char k"
  by (simp add: lower_def)

lemma digit_char_eq_iff [simp]: "k < 10 \<Longrightarrow> (digit_char k = c) = ((of_char c :: nat) = 48 + k)"
  by (metis of_char_digit_char of_char_eq_iff)

lemma digit_char_eq_iff' [simp]: "k < 10 \<Longrightarrow> (c = digit_char k) = ((of_char c :: nat) = 48 + k)"
  by (metis of_char_digit_char of_char_eq_iff)

lemma digit_val_digit_char [simp]: "k < 10 \<Longrightarrow> digit_val (digit_char k) = k"
  by (simp add: digit_val_def)

lemma not_space_digit_char [simp]: "k < 10 \<Longrightarrow> \<not> is_space (digit_char k)"
  by (simp add: is_space_def)






lemma lower_lits [simp]: "lower (CHR ''0'') = CHR ''0''" "lower (CHR ''1'') = CHR ''1''"
  "lower (CHR ''2'') = CHR ''2''" "lower (CHR ''3'') = CHR ''3''" "lower (CHR ''6'') = CHR ''6''"
  "lower (CHR '':'') = CHR '':''" "lower (CHR '' '') = CHR '' ''"
  by (simp_all add: lower_def)

lemma is_space_blank [simp]: "is_space (CHR '' '')"
  by (simp add: is_space_def)

lemma take_diff2 [simp]: "take (Suc (Suc (length r)) - length r) (a # b # r) = [a, b]"
  by (simp add: Suc_diff_le)

lemma take_diff4 [simp]:
  "take (Suc (Suc (Suc (Suc (length r)))) - length r) (a # b # c # d # r) = [a, b, c, d]"
  by (simp add: Suc_diff_le)






















lemma datetime_new_raises: "datetime_new y m d H M S = Inl e \<Longrightarrow> e = ValueError"
  by (simp add: datetime_new_def Let_def split: if_splits)

lemma strptime_raises: "strptime s f = Inl e \<Longrightarrow> e = ValueError"
  by (auto simp: strptime_def split: option.splits if_splits dest: datetime_new_raises)

lemma parse_instagram_date_cases:
  "parse_instagram_date s =
     (case strptime s ''%Y:%m:%d %H:%M:%S'' of
        Inr dt \<Rightarrow> Inr (Some dt)
      | Inl e \<Rightarrow> (case strptime s ''%b %d, %Y %I:%M %p'' of
                     Inr dt \<Rightarrow> Inr (Some dt) | Inl e' \<Rightarrow> Inr None))"
  by (auto simp: parse_instagram_date_def split: sum.splits dest: strptime_raises)

lemma parse_instagram_date_returns: "\<exists>r. parse_instagram_date s = Inr r"
  by (simp add: parse_instagram_date_cases split: sum.splits)



section \<open>Properties of the record locator\<close>

lemma table_date_first:
  "table_date rows =
     (case List.map_filter date_taken_value rows of
        [] \<Rightarrow> Inr None
      | v # vs \<Rightarrow> parse_instagram_date v)"
proof (induction rows)
  case Nil
  show ?case by (simp add: List.map_filter_simps)
next
  case (Cons row rows)
  show ?case
  proof (cases "date_taken_value row")
    case None
    then have "table_date (row # rows) = table_date rows"
      by (auto simp: date_taken_value_def Let_def split: if_splits option.splits)
    with None Cons show ?thesis by (simp add: List.map_filter_simps)
  next
    case (Some v)
    then have "table_date (row # rows) = parse_instagram_date v"
      by (auto simp: date_taken_value_def Let_def split: if_splits option.splits)
    with Some show ?thesis by (simp add: List.map_filter_simps)
  qed
qed

lemma date_taken_value_label:
  "date_taken_value row = Some v \<Longrightarrow> row_label row = Some ''Date taken''"
  by (auto simp: date_taken_value_def row_label_def Let_def split: if_splits option.splits)

lemma map_filter_label:
  "List.map_filter date_taken_value (filter (\<lambda>r. row_label r = Some ''Date taken'') rows) =
   List.map_filter date_taken_value rows"
proof (induction rows)
  case Nil
  show ?case by simp
next
  case (Cons row rows)
  then show ?case
    by (cases "date_taken_value row")
       (auto simp: List.map_filter_simps dest: date_taken_value_label)
qed

lemma find_date_rows_table_date:
  "map_sum id fst (find_date_rows debug rows) = table_date rows"
proof (induction rows)
  case Nil
  show ?case by simp
next
  case (Cons row rows)
  obtain r where r: "parse_instagram_date (case value_div_of (find_all ''td'' None row) of Some v \<Rightarrow> get_text v | None \<Rightarrow> []) = Inr r"
    using parse_instagram_date_returns by blast
  show ?case
    using Cons r
    by (auto simp: Let_def split: option.splits sum.splits prod.splits)
qed

lemma display_date_returns: "\<exists>r. display_date post = Inr r"
  using parse_instagram_date_returns
  by (auto simp: display_date_def split: option.splits)

lemma table_date_returns: "\<exists>r. table_date rows = Inr r"
  using parse_instagram_date_returns
  by (auto simp: table_date_first split: list.splits)

lemma post_date_returns: "\<exists>r. post_date post = Inr r"
  using display_date_returns [of post] table_date_returns [of "find_all ''tr'' None post"]
  by (auto simp: post_date_def split: sum.splits option.splits)

lemma post_images_returns: "\<exists>recs out. post_images fs hp dbg post = Inr (recs, out)"
  using post_date_returns [of post]
  by (auto simp: post_images_def split: sum.splits option.splits prod.splits)

lemma post_images_records:
  "post_images fs hp dbg post = Inr (post_records fs hp dbg post, snd (projr (post_images fs hp dbg post)))"
  using post_images_returns [of fs hp dbg post] by (auto simp: post_records_def)

lemma posts_loop_records:
  "\<exists>out. posts_loop fs hp dbg posts = Inr (concat (map (post_records fs hp dbg) posts), out)"
proof (induction posts)
  case Nil
  show ?case by simp
next
  case (Cons post posts)
  then obtain out where "posts_loop fs hp dbg posts = Inr (concat (map (post_records fs hp dbg) posts), out)"
    by blast
  then show ?case
    by (subst posts_loop.simps, subst post_images_records) simp
qed

lemma resolve_image_debug:
  "fst (resolve_image fs hp ip dbg) = fst (resolve_image fs hp ip dbg')"
  by (simp add: resolve_image_def Let_def split: option.splits)

lemma post_records_debug:
  "post_records fs hp dbg post = post_records fs hp dbg' post"
  using resolve_image_debug [of fs hp _ dbg dbg']
  by (auto simp: post_records_def post_images_def split: sum.splits option.splits prod.splits)
     (metis fst_conv option.distinct(1) option.inject)+

text \<open>
  Claim C3. When the display-date block of a post parses, its value is the date of
  the post whatever the table rows of the post hold, and a record emitted for the post
  carries that value.
\<close>

theorem display_date_precedence:
  assumes "find_first ''div'' (Some ''_3-94 _a6-o'') post = Some date_div"
    and "parse_instagram_date (get_text date_div) = Inr (Some t)"
  shows "post_date post = Inr (Some t) \<and>
         (post_records fs hp dbg post = [] \<or> (\<exists>p. post_records fs hp dbg post = [(p, t)]))"
proof -
  have d: "post_date post = Inr (Some t)"
    using assms by (simp add: post_date_def display_date_def)
  then show ?thesis
    by (auto simp: post_records_def post_images_def split: option.splits prod.splits)
qed

lemma example_parse_display:
  "parse_instagram_date ''Jan 01, 2020 12:00 am'' =
     Inr (Some \<lparr>year = 2020, month = 1, day = 1, hour = 0, minute = 0, second = 0\<rparr>)"
  by code_simp

lemma example_parse_table:
  "parse_instagram_date ''2020:01:02 00:00:00'' =
     Inr (Some \<lparr>year = 2020, month = 1, day = 2, hour = 0, minute = 0, second = 0\<rparr>)"
  by code_simp

theorem display_date_precedence_witness:
  "find_first ''div'' (Some ''_3-94 _a6-o'') example_post_both =
     Some (example_display ''Jan 01, 2020 12:00 am'') \<and>
   parse_instagram_date (get_text (example_display ''Jan 01, 2020 12:00 am'')) =
     Inr (Some \<lparr>year = 2020, month = 1, day = 1, hour = 0, minute = 0, second = 0\<rparr>) \<and>
   List.map_filter date_taken_value (find_all ''tr'' None example_post_both) =
     [''2020:01:02 00:00:00''] \<and>
   parse_instagram_date ''2020:01:02 00:00:00'' =
     Inr (Some \<lparr>year = 2020, month = 1, day = 2, hour = 0, minute = 0, second = 0\<rparr>) \<and>
   post_date example_post_both =
     Inr (Some \<lparr>year = 2020, month = 1, day = 1, hour = 0, minute = 0, second = 0\<rparr>)"
proof -
  have h1: "find_first ''div'' (Some ''_3-94 _a6-o'') example_post_both =
     Some (example_display ''Jan 01, 2020 12:00 am'')"
    by code_simp
  have g: "get_text (example_display ''Jan 01, 2020 12:00 am'') = ''Jan 01, 2020 12:00 am''"
    by code_simp
  have h2: "parse_instagram_date (get_text (example_display ''Jan 01, 2020 12:00 am'')) =
     Inr (Some \<lparr>year = 2020, month = 1, day = 1, hour = 0, minute = 0, second = 0\<rparr>)"
    by (simp only: g example_parse_display)
  have h3: "List.map_filter date_taken_value (find_all ''tr'' None example_post_both) =
     [''2020:01:02 00:00:00'']"
    by code_simp
  show ?thesis
    using h1 h2 h3 example_parse_table display_date_precedence [OF h1 h2] by simp
qed

text \<open>
  Claim C4. When a post has no usable display date its date is what the scan of its
  table rows gives: the text of the first row, from the top, whose label is exactly
  \<open>Date taken\<close> and whose value is non-empty, parsed by parse\_instagram\_date, and
  None when there is no such row. Rows after it are not looked at, rows with another
  label can be removed without changing the result, and the loop of find\_date\_in\_html
  returns the same date.
\<close>

theorem table_fallback_first_match:
  "(display_date post = Inr None \<longrightarrow> post_date post = table_date (find_all ''tr'' None post)) \<and>
   table_date rows =
     (case List.map_filter date_taken_value rows of
        [] \<Rightarrow> Inr None
      | v # vs \<Rightarrow> parse_instagram_date v) \<and>
   table_date rows = table_date (filter (\<lambda>r. row_label r = Some ''Date taken'') rows) \<and>
   map_sum id fst (find_date_rows debug rows) = table_date rows"
proof -
  have "table_date (filter (\<lambda>r. row_label r = Some ''Date taken'') rows) = table_date rows"
    by (simp only: table_date_first map_filter_label)
  then show ?thesis
    using table_date_first [of rows] find_date_rows_table_date [of debug rows]
    by (simp add: post_date_def)
qed

lemma example_parse_taken:
  "parse_instagram_date ''2019:05:05 05:05:05'' =
     Inr (Some \<lparr>year = 2019, month = 5, day = 5, hour = 5, minute = 5, second = 5\<rparr>)"
  by code_simp

theorem table_fallback_first_match_witness:
  "display_date example_post_table = Inr None \<and>
   List.map_filter date_taken_value (find_all ''tr'' None example_post_table) =
     [''2019:05:05 05:05:05'', ''2021:06:06 06:06:06''] \<and>
   map row_label (find_all ''tr'' None example_post_table) =
     [Some ''Caption'', Some ''Date taken'', Some ''Date taken''] \<and>
   post_date example_post_table =
     Inr (Some \<lparr>year = 2019, month = 5, day = 5, hour = 5, minute = 5, second = 5\<rparr>)"
proof -
  have h1: "display_date example_post_table = Inr None"
    by code_simp
  have h2: "List.map_filter date_taken_value (find_all ''tr'' None example_post_table) =
     [''2019:05:05 05:05:05'', ''2021:06:06 06:06:06'']"
    by code_simp
  have h3: "map row_label (find_all ''tr'' None example_post_table) =
     [Some ''Caption'', Some ''Date taken'', Some ''Date taken'']"
    by code_simp
  show ?thesis
    using h1 h2 h3 example_parse_taken
      table_fallback_first_match [of example_post_table "find_all ''tr'' None example_post_table"]
    by simp
qed

text \<open>
  Claim C5. A post contributes at most one record, and only when it has an image
  element with a non-empty \<open>src\<close> and a parsed date, which is the date of the record; a
  post without the image element, without a non-empty \<open>src\<close> or without a date
  contributes nothing and prints nothing. The records of a document are those of its
  posts, in document order.
\<close>

theorem record_emission_gate:
  "(post_records fs hp dbg post = [] \<or>
     (\<exists>img src d p. find_first ''img'' (Some ''_a6_o _3-96'') post = Some img \<and>
        get_attr img ''src'' = Some src \<and> src \<noteq> [] \<and> post_date post = Inr (Some d) \<and>
        post_records fs hp dbg post = [(p, d)])) \<and>
   ((find_first ''img'' (Some ''_a6_o _3-96'') post = None \<or>
     (\<exists>img. find_first ''img'' (Some ''_a6_o _3-96'') post = Some img \<and>
        (get_attr img ''src'' = None \<or> get_attr img ''src'' = Some [])) \<or>
     post_date post = Inr None) \<longrightarrow>
    post_images fs hp dbg post = Inr ([], [])) \<and>
   (\<exists>out. find_images_in_html html_parser fs html hp dbg =
      Inr (concat (map (post_records fs hp dbg)
             (find_all ''div'' (Some ''pam _3-95 _2ph- _a6-g uiBoxWhite noborder'')
                (html_parser html))), out))"
proof (intro conjI)
  show "post_records fs hp dbg post = [] \<or>
     (\<exists>img src d p. find_first ''img'' (Some ''_a6_o _3-96'') post = Some img \<and>
        get_attr img ''src'' = Some src \<and> src \<noteq> [] \<and> post_date post = Inr (Some d) \<and>
        post_records fs hp dbg post = [(p, d)])"
    by (auto simp: post_records_def post_images_def split: sum.splits option.splits prod.splits)
next
  show "(find_first ''img'' (Some ''_a6_o _3-96'') post = None \<or>
     (\<exists>img. find_first ''img'' (Some ''_a6_o _3-96'') post = Some img \<and>
        (get_attr img ''src'' = None \<or> get_attr img ''src'' = Some [])) \<or>
     post_date post = Inr None) \<longrightarrow>
    post_images fs hp dbg post = Inr ([], [])"
    using post_date_returns [of post]
    by (auto simp: post_images_def split: sum.splits option.splits prod.splits)
next
  show "\<exists>out. find_images_in_html html_parser fs html hp dbg =
      Inr (concat (map (post_records fs hp dbg)
             (find_all ''div'' (Some ''pam _3-95 _2ph- _a6-g uiBoxWhite noborder'')
                (html_parser html))), out)"
    using posts_loop_records by (simp add: find_images_in_html_def)
qed

lemma example_records_both:
  "post_records example_fs example_html_path False example_post_both =
     [(''/home/u/export/media/posts/photo.jpg'',
       \<lparr>year = 2020, month = 1, day = 1, hour = 0, minute = 0, second = 0\<rparr>)]"
  by code_simp

theorem record_emission_gate_witness:
  "post_date example_post_no_date = Inr None \<and>
   post_images example_fs example_html_path False example_post_no_date = Inr ([], []) \<and>
   post_records example_fs example_html_path False example_post_both =
     [(''/home/u/export/media/posts/photo.jpg'',
       \<lparr>year = 2020, month = 1, day = 1, hour = 0, minute = 0, second = 0\<rparr>)] \<and>
   post_date example_post_both =
     Inr (Some \<lparr>year = 2020, month = 1, day = 1, hour = 0, minute = 0, second = 0\<rparr>)"
proof -
  have h: "post_date example_post_no_date = Inr None"
    by code_simp
  have i: "find_first ''img'' (Some ''_a6_o _3-96'') example_post_both =
      Some (example_img ''media/posts/photo.jpg'')"
    by code_simp
  show ?thesis
    using h i example_records_both
      record_emission_gate [of example_fs example_html_path False example_post_no_date]
      record_emission_gate [of example_fs example_html_path False example_post_both]
    by auto
qed

lemma find_date_rows_value:
  "table_date rows = Inr r \<Longrightarrow> \<exists>out. find_date_rows dbg rows = Inr (r, out)"
  using find_date_rows_table_date [of dbg rows]
  by (cases "find_date_rows dbg rows") auto

lemma find_date_in_html_debug:
  "map_sum id fst (find_date_in_html html_parser html dbg) =
   map_sum id fst (find_date_in_html html_parser html dbg')"
proof -
  obtain r where r: "table_date (find_all ''tr'' None (html_parser html)) = Inr r"
    using table_date_returns by blast
  obtain o1 where o1: "find_date_rows dbg (find_all ''tr'' None (html_parser html)) = Inr (r, o1)"
    using find_date_rows_value [OF r] by blast
  obtain o2 where o2: "find_date_rows dbg' (find_all ''tr'' None (html_parser html)) = Inr (r, o2)"
    using find_date_rows_value [OF r] by blast
  show ?thesis
  proof (cases "find_first ''div'' (Some ''_3-94 _a6-o'') (html_parser html)")
    case None
    then show ?thesis by (simp add: find_date_in_html_def Let_def o1 o2)
  next
    case (Some date_div)
    obtain p where p: "parse_instagram_date (get_text date_div) = Inr p"
      using parse_instagram_date_returns by blast
    show ?thesis
      by (cases p) (simp_all add: find_date_in_html_def Let_def Some p o1 o2)
  qed
qed

text \<open>
  Claim C9. The records find\_images\_in\_html returns, and the date find\_date\_in\_html
  returns, are the same whatever the debug flag is; the flag only changes what is
  printed.
\<close>

theorem debug_noninterference:
  "map_sum id fst (find_images_in_html html_parser fs html hp dbg) =
   map_sum id fst (find_images_in_html html_parser fs html hp dbg') \<and>
   map_sum id fst (find_date_in_html html_parser html dbg) =
   map_sum id fst (find_date_in_html html_parser html dbg')"
proof -
  let ?posts = "find_all ''div'' (Some ''pam _3-95 _2ph- _a6-g uiBoxWhite noborder'') (html_parser html)"
  obtain o1 where "posts_loop fs hp dbg ?posts = Inr (concat (map (post_records fs hp dbg) ?posts), o1)"
    using posts_loop_records by blast
  moreover obtain o2 where "posts_loop fs hp dbg' ?posts = Inr (concat (map (post_records fs hp dbg') ?posts), o2)"
    using posts_loop_records by blast
  moreover have "map (post_records fs hp dbg) ?posts = map (post_records fs hp dbg') ?posts"
    using post_records_debug [of fs hp dbg _ dbg'] by simp
  ultimately have "map_sum id fst (find_images_in_html html_parser fs html hp dbg) =
      map_sum id fst (find_images_in_html html_parser fs html hp dbg')"
    by (simp add: find_images_in_html_def)
  then show ?thesis
    using find_date_in_html_debug [of html_parser html dbg dbg'] by simp
qed

theorem debug_noninterference_witness:
  "find_images_in_html (\<lambda>html. example_document) example_fs [] ''/tmp/posts_1.html'' True =
     Inr ([], [WarningNoRootPath, WarningNoRootPath]) \<and>
   find_images_in_html (\<lambda>html. example_document) example_fs [] ''/tmp/posts_1.html'' False =
     Inr ([], []) \<and>
   map_sum id fst
     (find_images_in_html (\<lambda>html. example_document) example_fs [] ''/tmp/posts_1.html'' True) =
   map_sum id fst
     (find_images_in_html (\<lambda>html. example_document) example_fs [] ''/tmp/posts_1.html'' False)"
proof -
  have a: "find_images_in_html (\<lambda>html. example_document) example_fs [] ''/tmp/posts_1.html'' True =
     Inr ([], [WarningNoRootPath, WarningNoRootPath])"
    by code_simp
  have b: "find_images_in_html (\<lambda>html. example_document) example_fs [] ''/tmp/posts_1.html'' False =
     Inr ([], [])"
    by code_simp
  show ?thesis
    using a b debug_noninterference [of "\<lambda>html. example_document" example_fs "[]"
        "''/tmp/posts_1.html''" True False]
    by simp
qed






section \<open>Properties of the metadata writer\<close>

lemma backup_path_neq [simp]: "p @ ''.backup'' \<noteq> p" "p \<noteq> p @ ''.backup''"
  by simp_all

lemma commit_update_fail_state:
  assumes "commit_update env p (p @ ''.backup'') img xb d fs1 = (Some e, fs')"
  shows "fs' (p @ ''.backup'') = fs1 (p @ ''.backup'') \<and>
         (\<forall>q. q \<noteq> p \<longrightarrow> q \<noteq> p @ ''.backup'' \<longrightarrow> fs' q = fs1 q)"
  using assms
  by (auto simp: commit_update_def Let_def split: sum.splits option.splits prod.splits)


lemma try_update_fail_state:
  assumes "fs p = Some f" and "copy2_fault env = None"
    and "try_update env p d fs = (Some e, fs')"
  shows "fs' (p @ ''.backup'') = Some f \<and>
         (\<forall>q. q \<noteq> p \<longrightarrow> q \<noteq> p @ ''.backup'' \<longrightarrow> fs' q = fs q)"
proof (cases "prepare_exif env (data f) d")
  case (Inl e')
  with assms show ?thesis by (auto simp: try_update_def Let_def)
next
  case (Inr r)
  obtain img xb where r: "r = (img, xb)" by (cases r)
  from assms Inr r
  have "commit_update env p (p @ ''.backup'') img xb d (fs(p @ ''.backup'' \<mapsto> f)) = (Some e, fs')"
    by (simp add: try_update_def Let_def)
  from commit_update_fail_state [OF this] show ?thesis by simp
qed


text \<open>Which exceptions leave the \<open>try\<close> block once the backup copy is made.\<close>

lemma try_update_exception:
  assumes "fs p = Some f" and "copy2_fault env = None"
  shows "fst (try_update env p d fs) =
     (case prepare_exif env (data f) d of
        Inl e \<Rightarrow> Some e
      | Inr (img, xb) \<Rightarrow>
          (case image_save env img xb of
             Inl (e, leftover) \<Rightarrow> Some e
           | Inr bytes \<Rightarrow>
               (case timestamp env d of
                  Inl e \<Rightarrow> Some e
                | Inr ts \<Rightarrow>
                    (case utime_fault env of Some e \<Rightarrow> Some e | None \<Rightarrow> remove_fault env))))"
  using assms
  by (auto simp: try_update_def commit_update_def Let_def
      split: sum.splits option.splits prod.splits)

lemma restore_state:
  assumes "fs p = Some f" and "fs' (p @ ''.backup'') = Some f"
    and "\<forall>q. q \<noteq> p \<longrightarrow> q \<noteq> p @ ''.backup'' \<longrightarrow> fs' q = fs q"
  shows "fs'(p := fs' (p @ ''.backup''), p @ ''.backup'' := None) = fs(p @ ''.backup'' := None)"
  using assms by (auto simp: fun_eq_iff)

lemma update_failed:
  assumes "fs p = Some f" and "copy2_fault env = None"
    and "fst (try_update env p d fs) = Some e"
  shows "update_image_metadata env p d fs = (False, fs(p @ ''.backup'' := None), [ErrorUpdating p e])"
proof -
  obtain fs' where t: "try_update env p d fs = (Some e, fs')"
    using assms(3) by (cases "try_update env p d fs") auto
  from try_update_fail_state [OF assms(1,2) t]
  have s: "fs' (p @ ''.backup'') = Some f"
    "\<forall>q. q \<noteq> p \<longrightarrow> q \<noteq> p @ ''.backup'' \<longrightarrow> fs' q = fs q"
    by simp_all
  have "fs'(p := fs' (p @ ''.backup''), p @ ''.backup'' := None) = fs(p @ ''.backup'' := None)"
    by (rule restore_state [OF assms(1) s])
  then show ?thesis
    using assms(1) t s(1) by (simp add: update_image_metadata_def path_exists_def Let_def)
qed




lemma example_save_fails:
  "try_update example_env_save_fails example_image_path example_date example_fs =
     (Some OSError,
      example_fs(example_image_path @ ''.backup'' \<mapsto> example_file,
                 example_image_path \<mapsto> \<lparr>data = ''orig'', atime = 200, mtime = 200\<rparr>))"
  by (simp add: try_update_def prepare_exif_def commit_update_def example_env_save_fails_def
      example_env_def example_fs_def example_image_path_def empty_exif_def exif_put_def Let_def)



lemma try_update_completed:
  assumes "fs p = Some f" and "copy2_fault env = None"
    and "prepare_exif env (data f) d = Inr (img, xb)" and "image_save env img xb = Inr bytes"
    and "timestamp env d = Inr ts" and "utime_fault env = None"
  shows "try_update env p d fs =
     (remove_fault env,
      (case remove_fault env of
         Some e \<Rightarrow> fs(p @ ''.backup'' \<mapsto> f, p \<mapsto> \<lparr>data = bytes, atime = ts, mtime = ts\<rparr>)
       | None \<Rightarrow> (fs(p @ ''.backup'' \<mapsto> f, p \<mapsto> \<lparr>data = bytes, atime = ts, mtime = ts\<rparr>))
                   (p @ ''.backup'' := None)))"
  using assms
  by (simp add: try_update_def commit_update_def Let_def split: option.splits)

lemma success_needs_remove:
  assumes "fst (update_image_metadata env p d fs)"
  shows "remove_fault env = None"
proof (rule ccontr)
  assume "remove_fault env \<noteq> None"
  then obtain e where e: "remove_fault env = Some e" by blast
  have "\<And>img xb fs1. fst (commit_update env p (p @ ''.backup'') img xb d fs1) \<noteq> None"
    using e by (simp add: commit_update_def Let_def split: sum.splits option.splits prod.splits)
  then have "fst (try_update env p d fs) \<noteq> None"
    by (auto simp: try_update_def Let_def split: sum.splits option.splits prod.splits)
  with assms show False
    by (auto simp: update_image_metadata_def Let_def split: if_splits prod.splits option.splits)
qed

text \<open>
  Claim C10. The call returns True only if removing the backup did not raise. When
  the copy, the preparation of the EXIF bytes, the save and the timestamp update have
  all completed and the removal raises, the \<open>try\<close> block is left with the image
  rewritten and the backup holding the original; the handler then moves the backup
  over the image, so that the call returns False with the original image in place and
  no backup file.
\<close>

theorem remove_failure_undoes_update:
  "(fst (update_image_metadata env p d fs) \<longrightarrow> remove_fault env = None) \<and>
   (fs p = Some f \<and> copy2_fault env = None \<and> prepare_exif env (data f) d = Inr (img, xb) \<and>
    image_save env img xb = Inr bytes \<and> timestamp env d = Inr ts \<and> utime_fault env = None \<and>
    remove_fault env = Some e \<longrightarrow>
      try_update env p d fs =
        (Some e, fs(p @ ''.backup'' \<mapsto> f, p \<mapsto> \<lparr>data = bytes, atime = ts, mtime = ts\<rparr>)) \<and>
      update_image_metadata env p d fs =
        (False, fs(p @ ''.backup'' := None), [ErrorUpdating p e]))"
proof (intro conjI impI)
  assume "fst (update_image_metadata env p d fs)"
  then show "remove_fault env = None" by (rule success_needs_remove)
next
  assume a: "fs p = Some f \<and> copy2_fault env = None \<and> prepare_exif env (data f) d = Inr (img, xb) \<and>
    image_save env img xb = Inr bytes \<and> timestamp env d = Inr ts \<and> utime_fault env = None \<and>
    remove_fault env = Some e"
  then show t: "try_update env p d fs =
        (Some e, fs(p @ ''.backup'' \<mapsto> f, p \<mapsto> \<lparr>data = bytes, atime = ts, mtime = ts\<rparr>))"
    using try_update_completed [of fs p f env d img xb bytes ts] by simp
  from a t show "update_image_metadata env p d fs =
        (False, fs(p @ ''.backup'' := None), [ErrorUpdating p e])"
    using update_failed [of fs p f env d e] by simp
qed

theorem remove_failure_undoes_update_witness:
  "example_fs example_image_path = Some example_file \<and>
   copy2_fault example_env_remove_fails = None \<and>
   prepare_exif example_env_remove_fails (data example_file) example_date =
     Inr (''original bytes'', ''exif'') \<and>
   image_save example_env_remove_fails ''original bytes'' ''exif'' = Inr ''original bytesexif'' \<and>
   timestamp example_env_remove_fails example_date = Inr 300 \<and>
   utime_fault example_env_remove_fails = None \<and>
   remove_fault example_env_remove_fails = Some OSError \<and>
   try_update example_env_remove_fails example_image_path example_date example_fs =
     (Some OSError,
      example_fs(example_image_path @ ''.backup'' \<mapsto> example_file,
        example_image_path \<mapsto> \<lparr>data = ''original bytesexif'', atime = 300, mtime = 300\<rparr>)) \<and>
   update_image_metadata example_env_remove_fails example_image_path example_date example_fs =
     (False, example_fs(example_image_path @ ''.backup'' := None),
      [ErrorUpdating example_image_path OSError])"
proof -
  have a: "example_fs example_image_path = Some example_file"
    by (simp add: example_fs_def example_image_path_def)
  have b: "copy2_fault example_env_remove_fails = None"
    "utime_fault example_env_remove_fails = None"
    "remove_fault example_env_remove_fails = Some OSError"
    "timestamp example_env_remove_fails example_date = Inr 300"
    "image_save example_env_remove_fails ''original bytes'' ''exif'' = Inr ''original bytesexif''"
    by (simp_all add: example_env_remove_fails_def example_env_def)
  have c: "prepare_exif example_env_remove_fails (data example_file) example_date =
     Inr (''original bytes'', ''exif'')"
    by (simp add: prepare_exif_def example_env_remove_fails_def example_env_def example_file_def
        empty_exif_def exif_put_def Let_def)
  show ?thesis
    using a b c
      remove_failure_undoes_update [of example_env_remove_fails example_image_path example_date
        example_fs example_file "''original bytes''" "''exif''" "''original bytesexif''" 300 OSError]
    by blast
qed

text \<open>
  Claim C8, as the code has it. The result is a truth value. It is True exactly when
  the image exists and no exception leaves the \<open>try\<close> block. It is False both when the
  image is missing, in which case nothing is touched, and when an exception leaves the
  \<open>try\<close> block; the two cases differ in the line that is printed, not in the value
  returned.
\<close>

theorem update_result_two_valued:
  "(\<not> path_exists fs p \<longrightarrow>
      update_image_metadata env p d fs = (False, fs, [ErrorImageNotFound p])) \<and>
   (path_exists fs p \<and> fst (try_update env p d fs) = None \<longrightarrow>
      fst (update_image_metadata env p d fs) = True \<and>
      snd (snd (update_image_metadata env p d fs)) = [Updated (basename p) d]) \<and>
   (path_exists fs p \<and> fst (try_update env p d fs) = Some e \<longrightarrow>
      fst (update_image_metadata env p d fs) = False \<and>
      snd (snd (update_image_metadata env p d fs)) = [ErrorUpdating p e])"
  by (auto simp: update_image_metadata_def Let_def split: prod.splits option.splits)

lemma example_missing:
  "\<not> path_exists example_fs ''/home/u/export/media/posts/missing.jpg''"
  by (simp add: path_exists_def example_fs_def)

lemma example_success:
  "try_update example_env example_image_path example_date example_fs =
     (None,
      (example_fs(example_image_path @ ''.backup'' \<mapsto> example_file,
         example_image_path \<mapsto> \<lparr>data = ''original bytesexif'', atime = 300, mtime = 300\<rparr>))
        (example_image_path @ ''.backup'' := None))"
  by (simp add: try_update_def prepare_exif_def commit_update_def
      example_env_def example_fs_def example_image_path_def example_file_def
      empty_exif_def exif_put_def Let_def)

theorem update_result_two_valued_witness:
  "\<not> path_exists example_fs ''/home/u/export/media/posts/missing.jpg'' \<and>
   update_image_metadata example_env ''/home/u/export/media/posts/missing.jpg'' example_date
     example_fs =
     (False, example_fs, [ErrorImageNotFound ''/home/u/export/media/posts/missing.jpg'']) \<and>
   path_exists example_fs example_image_path \<and>
   fst (try_update example_env example_image_path example_date example_fs) = None \<and>
   fst (update_image_metadata example_env example_image_path example_date example_fs) = True \<and>
   fst (try_update example_env_save_fails example_image_path example_date example_fs) =
     Some OSError \<and>
   fst (update_image_metadata example_env_save_fails example_image_path example_date example_fs) =
     False \<and>
   snd (snd (update_image_metadata example_env_save_fails example_image_path example_date
     example_fs)) = [ErrorUpdating example_image_path OSError]"
proof -
  have a: "path_exists example_fs example_image_path"
    by (simp add: path_exists_def example_fs_def example_image_path_def)
  have b: "fst (try_update example_env example_image_path example_date example_fs) = None"
    by (simp add: example_success)
  have c: "fst (try_update example_env_save_fails example_image_path example_date example_fs) =
     Some OSError"
    by (simp add: example_save_fails)
  show ?thesis
    using example_missing a b c
      update_result_two_valued [of example_fs "''/home/u/export/media/posts/missing.jpg''"
        example_env example_date OSError]
      update_result_two_valued [of example_fs example_image_path example_env example_date OSError]
      update_result_two_valued [of example_fs example_image_path example_env_save_fails
        example_date OSError]
    by blast
qed

text \<open>
  The claim as stated fails: a call on a missing image and a call whose save raises
  return the same value, so the caller cannot tell the skip from the failure.
\<close>

theorem update_result_counterexample:
  "\<not> path_exists example_fs ''/home/u/export/media/posts/missing.jpg'' \<and>
   path_exists example_fs example_image_path \<and>
   fst (try_update example_env_save_fails example_image_path example_date example_fs) =
     Some OSError \<and>
   fst (update_image_metadata example_env ''/home/u/export/media/posts/missing.jpg''
     example_date example_fs) =
   fst (update_image_metadata example_env_save_fails example_image_path example_date example_fs)"
  using example_missing
  by (simp add: update_image_metadata_def example_save_fails Let_def)
     (simp add: path_exists_def example_fs_def example_image_path_def)

end
